theory Spec2Isabelle
  imports Main
begin

section \<open>Python string primitives used by the formatter\<close>

text \<open>
  A Python \<open>str\<close> is a sequence of code points. The model uses HOL's \<open>string\<close>
  (a list of 8-bit \<open>char\<close>), read as the code points U+0000 to U+00FF; on that range
  the three character tables below are the ones of Python 3 (\<open>str.isspace\<close>,
  \<open>str.isupper\<close>, \<open>str.lower\<close>). Every theorem about "every text" therefore ranges
  over the texts whose characters lie in that range.
\<close>

definition isspace :: "char \<Rightarrow> bool" where
  "isspace c = (let n = (of_char c :: nat) in
     (9 \<le> n \<and> n \<le> 13) \<or> (28 \<le> n \<and> n \<le> 32) \<or> n = 133 \<or> n = 160)"

definition isupper :: "char \<Rightarrow> bool" where
  "isupper c = (let n = (of_char c :: nat) in
     (65 \<le> n \<and> n \<le> 90) \<or> (192 \<le> n \<and> n \<le> 222 \<and> n \<noteq> 215))"

definition lower_char :: "char \<Rightarrow> char" where
  "lower_char c = (if isupper c then char_of ((of_char c :: nat) + 32) else c)"

definition lower :: "string \<Rightarrow> string" where
  "lower s = map lower_char s"

definition strip :: "string \<Rightarrow> string" where
  "strip s = rev (dropWhile isspace (rev (dropWhile isspace s)))"

text \<open>\<open>s.split('\n')\<close>: the pieces between newlines; never the empty list.\<close>

fun split_newline :: "string \<Rightarrow> string list" where
  "split_newline [] = [[]]"
| "split_newline (c # cs) =
     (if c = CHR 0x0A then [] # split_newline cs
      else (case split_newline cs of
              [] \<Rightarrow> [[c]]
            | l # ls \<Rightarrow> (c # l) # ls))"

text \<open>\<open>' '.join(xs)\<close>.\<close>

fun join_space :: "string list \<Rightarrow> string" where
  "join_space [] = []"
| "join_space [x] = x"
| "join_space (x # y # ys) = x @ '' '' @ join_space (y # ys)"

definition startswith :: "string \<Rightarrow> string \<Rightarrow> bool" where
  "startswith s p = (take (length p) s = p)"

definition endswith :: "string \<Rightarrow> string \<Rightarrow> bool" where
  "endswith s p = (length p \<le> length s \<and> drop (length s - length p) s = p)"

text \<open>\<open>p in s\<close> for strings: \<open>p\<close> occurs in \<open>s\<close> as a contiguous substring.\<close>

fun contains :: "string \<Rightarrow> string \<Rightarrow> bool" where
  "contains [] p = (p = [])"
| "contains (c # cs) p = (startswith (c # cs) p \<or> contains cs p)"

subsection \<open>The two regular expressions\<close>

text \<open>
  \<open>re.search(r'``(.+?)``', s)\<close> and \<open>re.search(r'`(.+?)`', s)\<close> have the shape
  \<open>d(.+?)d\<close> for a literal delimiter \<open>d\<close>. The backtracking matcher tries the start
  positions from left to right; at a start position it reads \<open>d\<close>, then one character
  other than a newline, then the shortest further run of such characters after which
  \<open>d\<close> follows. The result is group 1 of the first match.
\<close>

fun lazy_group :: "string \<Rightarrow> string \<Rightarrow> string option" where
  "lazy_group d [] = (if startswith [] d then Some [] else None)"
| "lazy_group d (c # cs) =
     (if startswith (c # cs) d then Some []
      else if c = CHR 0x0A then None
      else map_option ((#) c) (lazy_group d cs))"

definition match_here :: "string \<Rightarrow> string \<Rightarrow> string option" where
  "match_here d s =
     (if startswith s d then
        (case drop (length d) s of
           [] \<Rightarrow> None
         | c # cs \<Rightarrow> if c = CHR 0x0A then None else map_option ((#) c) (lazy_group d cs))
      else None)"

fun re_search :: "string \<Rightarrow> string \<Rightarrow> string option" where
  "re_search d [] = match_here d []"
| "re_search d (c # cs) =
     (case match_here d (c # cs) of
        Some g \<Rightarrow> Some g
      | None \<Rightarrow> re_search d cs)"

section \<open>TextParser.parse\<close>

datatype error = KeyError string | IndexError | ValueError

text \<open>
  A body block is one of the three dictionaries the parser builds:
  \<open>{'type': 'heading', 'level': l, 'text': t}\<close>, \<open>{'type': 'paragraph', 'text': t}\<close>
  and \<open>{'type': 'math', 'formula': f}\<close>.
\<close>

datatype block = Heading int string | Paragraph string | Math string

text \<open>The local variables of \<open>parse\<close> that live across loop iterations.\<close>

record pstate =
  body_content :: "block list"
  references :: "string list"
  in_references :: bool
  current_paragraph :: "string list"

definition init_state :: pstate where
  "init_state = \<lparr>body_content = [], references = [], in_references = False,
                 current_paragraph = []\<rparr>"

text \<open>
  The statement that occurs five times in \<open>parse\<close>:
  \<open>if current_paragraph: body_content.append({...' '.join(current_paragraph)}); current_paragraph = []\<close>.
\<close>

definition flush_paragraph :: "pstate \<Rightarrow> pstate" where
  "flush_paragraph st =
     (if current_paragraph st \<noteq> [] then
        st\<lparr>body_content := body_content st @ [Paragraph (join_space (current_paragraph st))],
           current_paragraph := []\<rparr>
      else st)"

text \<open>
  Lines 249-254: the loop over \<open>lines[i+1:]\<close> that looks for the first line that is
  not blank. It returns the new value of \<open>in_references\<close>. The read
  \<open>future_line.strip()[0]\<close> is an indexing that raises IndexError on the empty string,
  and is modelled so.
\<close>

fun scan_future :: "string list \<Rightarrow> bool \<Rightarrow> error + bool" where
  "scan_future [] flag = Inr flag"
| "scan_future (future_line # rest) flag =
     (if strip future_line \<noteq> [] then
        (case strip future_line of
           [] \<Rightarrow> Inl IndexError
         | c # _ \<Rightarrow> Inr (if isupper c then True else flag))
      else scan_future rest flag)"

text \<open>Lines 283-288: the count of leading \<open>#\<close> characters.\<close>

fun count_level :: "string \<Rightarrow> nat" where
  "count_level [] = 0"
| "count_level (c # cs) = (if c = CHR ''#'' then Suc (count_level cs) else 0)"

text \<open>
  One iteration of \<open>for i, line in enumerate(lines)\<close>. The argument \<open>future\<close> is
  \<open>lines[i+1:]\<close>; the test \<open>i + 1 < len(lines)\<close> is \<open>future \<noteq> []\<close>. A
  \<open>continue\<close> is the end of the iteration.
\<close>

definition step :: "string \<Rightarrow> string list \<Rightarrow> pstate \<Rightarrow> error + pstate" where
  "step line future st =
    (let stripped = strip line in
     if lower stripped = ''references'' \<or> (stripped = ''---'' \<and> future \<noteq> []) then
       (case (if stripped = ''---'' then scan_future future (in_references st) else Inr True) of
          Inl e \<Rightarrow> Inl e
        | Inr flag \<Rightarrow> Inr (flush_paragraph (st\<lparr>in_references := flag\<rparr>)))
     else if in_references st then
       Inr (if stripped \<noteq> [] then st\<lparr>references := references st @ [stripped]\<rparr> else st)
     else if startswith stripped ''#'' then
       (let st1 = flush_paragraph st;
            level = count_level stripped;
            text = strip (drop level stripped)
        in Inr (st1\<lparr>body_content := body_content st1 @ [Heading (min (int level) 5) text]\<rparr>))
     else if contains stripped ''``'' \<or> contains stripped ''`'' then
       (let st1 = flush_paragraph st;
            formula_match = (case re_search ''``'' stripped of
                               Some g \<Rightarrow> Some g
                             | None \<Rightarrow> re_search ''`'' stripped)
        in case formula_match of
             Some formula \<Rightarrow> Inr (st1\<lparr>body_content := body_content st1 @ [Math formula]\<rparr>)
           | None \<Rightarrow> Inr st1)
     else if stripped \<noteq> [] \<and> \<not> startswith stripped ''---'' then
       Inr (st\<lparr>current_paragraph := current_paragraph st @ [stripped]\<rparr>)
     else if current_paragraph st \<noteq> [] then Inr (flush_paragraph st)
     else Inr st)"

fun parse_loop :: "string list \<Rightarrow> pstate \<Rightarrow> error + pstate" where
  "parse_loop [] st = Inr st"
| "parse_loop (line # future) st =
     (case step line future st of
        Inl e \<Rightarrow> Inl e
      | Inr st' \<Rightarrow> parse_loop future st')"

definition parse :: "string \<Rightarrow> error + (block list \<times> string list)" where
  "parse raw_text =
     (case parse_loop (split_newline raw_text) init_state of
        Inl e \<Rightarrow> Inl e
      | Inr st \<Rightarrow> (let st' = flush_paragraph st in Inr (body_content st', references st')))"

section \<open>The document built by APAFormatter\<close>

text \<open>
  The formatter drives the python-docx library, which is not part of the repository.
  The model keeps what the formatter sets through it: the attributes of the Normal
  style, the margins of the one section a new \<open>Document()\<close> has, the paragraphs of
  its header, and the paragraphs of the body, each a list of runs. Lengths are
  python-docx's integer EMU values (\<open>Inches(1) = 914400\<close>, \<open>Pt(1) = 12700\<close>). An
  attribute the formatter has not set is \<open>None\<close> (for \<open>bold\<close> and \<open>italic\<close>:
  \<open>False\<close>).
\<close>

datatype wd_align = LEFT | CENTER | RIGHT

datatype wd_line_spacing = SINGLE | DOUBLE

datatype run_content = Text string | FieldCode string | PageBreak

record run =
  content :: run_content
  bold :: bool
  italic :: bool

record docx_paragraph =
  runs :: "run list"
  alignment :: "wd_align option"
  left_indent :: "int option"
  first_line_indent :: "int option"

record document =
  font_name :: "string option"
  font_size :: "int option"
  line_spacing_rule :: "wd_line_spacing option"
  space_before :: "int option"
  space_after :: "int option"
  top_margin :: "int option"
  bottom_margin :: "int option"
  left_margin :: "int option"
  right_margin :: "int option"
  header_paragraphs :: "docx_paragraph list"
  body :: "docx_paragraph list"

definition Pt :: "int \<Rightarrow> int" where
  "Pt n = n * 12700"

text \<open>\<open>Inches_halves k\<close> is \<open>Inches(k / 2)\<close>: \<open>Inches(0.5)\<close> is \<open>int(0.5 * 914400)\<close>.\<close>

definition Inches_halves :: "int \<Rightarrow> int" where
  "Inches_halves k = k * 457200"

definition Document :: document where
  "Document = \<lparr>font_name = None, font_size = None, line_spacing_rule = None,
               space_before = None, space_after = None, top_margin = None,
               bottom_margin = None, left_margin = None, right_margin = None,
               header_paragraphs = [], body = []\<rparr>"

definition text_run :: "string \<Rightarrow> run" where
  "text_run s = \<lparr>content = Text s, bold = False, italic = False\<rparr>"

text \<open>
  python-docx stores the text of a run through lxml, which refuses a string with a
  character that XML does not allow ("All strings must be XML compatible: Unicode or
  ASCII, no NULL bytes or control characters") by raising ValueError. On the code
  points U+0000 to U+00FF the allowed characters are tab, newline, carriage return and
  everything from U+0020 on.
\<close>

definition xml_char :: "char \<Rightarrow> bool" where
  "xml_char c = (let n = (of_char c :: nat) in n = 9 \<or> n = 10 \<or> n = 13 \<or> 32 \<le> n)"

text \<open>
  Setting the text of a run goes through the characters and keeps a buffer: a tab, a
  newline or a carriage return flushes the buffer as one text element and adds a tab or
  break element; the end of the text flushes the buffer. A flush of a buffer that holds a
  character XML does not allow raises ValueError, and the run keeps what was stored
  before. The model records a tab or break element as the character that made it.
  \<open>flush\<close> and \<open>append_to_run_from_text\<close> return the text stored in the run and the
  exception, if any.
\<close>

definition flush :: "string \<Rightarrow> string \<Rightarrow> string \<times> error option" where
  "flush bfr stored =
     (if bfr = [] then (stored, None)
      else if list_all xml_char bfr then (stored @ bfr, None)
      else (stored, Some ValueError))"

fun append_to_run_from_text :: "string \<Rightarrow> string \<Rightarrow> string \<Rightarrow> string \<times> error option" where
  "append_to_run_from_text [] bfr stored = flush bfr stored"
| "append_to_run_from_text (c # cs) bfr stored =
     (if c = CHR 0x09 \<or> c = CHR 0x0D \<or> c = CHR 0x0A then
        (case flush bfr stored of
           (stored', Some e) \<Rightarrow> (stored', Some e)
         | (stored', None) \<Rightarrow> append_to_run_from_text cs [] (stored' @ [c]))
      else append_to_run_from_text cs (bfr @ [c]) stored)"

text \<open>
  \<open>paragraph.add_run(text)\<close> adds a new run to the paragraph and then, under
  \<open>if text:\<close>, sets its text; so after a ValueError the run is there, with the part of
  the text that was stored.
\<close>

definition add_run :: "string \<Rightarrow> docx_paragraph \<Rightarrow> docx_paragraph \<times> error option" where
  "add_run s p =
     (if s \<noteq> [] then
        (case append_to_run_from_text s [] [] of
           (stored, e) \<Rightarrow> (p\<lparr>runs := runs p @ [text_run stored]\<rparr>, e))
      else (p\<lparr>runs := runs p @ [text_run []]\<rparr>, None))"

text \<open>The attributes of the run added last, as in \<open>run = para.add_run(...); run.bold = True\<close>.\<close>

definition update_last_run :: "(run \<Rightarrow> run) \<Rightarrow> docx_paragraph \<Rightarrow> docx_paragraph" where
  "update_last_run f p = p\<lparr>runs := butlast (runs p) @ [f (last (runs p))]\<rparr>"

text \<open>
  \<open>add_paragraph(text)\<close> of python-docx makes a new paragraph "having text in a single
  run if present": it adds the run only under \<open>if text:\<close>, so a paragraph made from the
  empty string has no run. \<open>new_paragraph s\<close> is the paragraph that
  \<open>add_paragraph(s)\<close> returns when it raises nothing; \<open>add_paragraph s\<close> is the
  paragraph the call leaves in the document, and the exception, if any.
\<close>

definition new_paragraph :: "string \<Rightarrow> docx_paragraph" where
  "new_paragraph s = \<lparr>runs = (if s \<noteq> [] then [text_run s] else []), alignment = None,
                      left_indent = None, first_line_indent = None\<rparr>"

definition add_paragraph :: "string \<Rightarrow> docx_paragraph \<times> error option" where
  "add_paragraph s = (if s \<noteq> [] then add_run s (new_paragraph []) else (new_paragraph [], None))"

definition append_paragraph :: "docx_paragraph \<Rightarrow> document \<Rightarrow> document" where
  "append_paragraph p d = d\<lparr>body := body d @ [p]\<rparr>"

definition add_page_break :: "document \<Rightarrow> document" where
  "add_page_break d =
     append_paragraph ((new_paragraph [])\<lparr>runs := [\<lparr>content = PageBreak, bold = False, italic = False\<rparr>]\<rparr>) d"

definition set_document_defaults :: "document \<Rightarrow> document" where
  "set_document_defaults d =
     d\<lparr>font_name := Some ''Times New Roman'', font_size := Some (Pt 12),
       line_spacing_rule := Some DOUBLE, space_before := Some (Pt 0),
       space_after := Some (Pt 0)\<rparr>"

definition set_margins :: "document \<Rightarrow> document" where
  "set_margins d =
     d\<lparr>top_margin := Some (Inches_halves 2), bottom_margin := Some (Inches_halves 2),
       left_margin := Some (Inches_halves 2), right_margin := Some (Inches_halves 2)\<rparr>"

definition add_page_numbers :: "document \<Rightarrow> document" where
  "add_page_numbers d =
     (let field_run = \<lparr>content = FieldCode ''PAGE'', bold = False, italic = False\<rparr>
      in case header_paragraphs d of
           [] \<Rightarrow> d\<lparr>header_paragraphs :=
                    [(new_paragraph [])\<lparr>alignment := Some RIGHT, runs := [field_run]\<rparr>]\<rparr>
         | header_para # ps \<Rightarrow>
             d\<lparr>header_paragraphs :=
                 header_para\<lparr>alignment := Some RIGHT, runs := runs header_para @ [field_run]\<rparr> # ps\<rparr>)"

text \<open>
  A method that can raise returns the document as the method left it, and the exception
  if there is one. python-docx objects are changed in place after they are added to the
  document; the model appends each paragraph with the attributes it has when the method
  is done with it, or when the exception is raised.
\<close>

definition title_keys :: "string list" where
  "title_keys = [''author'', ''institution'', ''course'', ''instructor'', ''date'']"

text \<open>Lines 129-132: the loop over the keys after the title.\<close>

fun title_lines :: "(string \<rightharpoonup> string) \<Rightarrow> string list \<Rightarrow> document \<Rightarrow> document \<times> error option" where
  "title_lines title_data [] d = (d, None)"
| "title_lines title_data (key # keys) d =
     (case title_data key of
        None \<Rightarrow> title_lines title_data keys d
      | Some v \<Rightarrow>
          if v \<noteq> [] then
            (case add_paragraph v of
               (para, Some e) \<Rightarrow> (append_paragraph para d, Some e)
             | (para, None) \<Rightarrow>
                 title_lines title_data keys
                   (append_paragraph (para\<lparr>alignment := Some CENTER\<rparr>) d))
          else title_lines title_data keys d)"

definition create_title_page :: "(string \<rightharpoonup> string) \<Rightarrow> document \<Rightarrow> document \<times> error option" where
  "create_title_page title_data d =
     (let d1 = append_paragraph (new_paragraph [])
                 (append_paragraph (new_paragraph []) (append_paragraph (new_paragraph []) d));
          title_para = (new_paragraph [])\<lparr>alignment := Some CENTER\<rparr>
      in case title_data ''title'' of
           None \<Rightarrow> (append_paragraph title_para d1, Some (KeyError ''title''))
         | Some title \<Rightarrow>
             (case add_run title title_para of
                (p, Some e) \<Rightarrow> (append_paragraph p d1, Some e)
              | (p, None) \<Rightarrow>
                  (let d2 = append_paragraph (update_last_run (\<lambda>r. r\<lparr>bold := True\<rparr>) p) d1;
                       d3 = append_paragraph (new_paragraph []) d2
                   in title_lines title_data title_keys d3)))"

text \<open>
  Lines 165-186, the \<open>else\<close> branch for a heading. \<open>add_paragraph(text)\<close> can raise
  ValueError; \<open>para.runs[0]\<close> raises IndexError when the paragraph has no run, which is
  the case exactly when \<open>text\<close> is empty.
\<close>

definition regular_heading :: "int \<Rightarrow> string \<Rightarrow> document \<Rightarrow> document \<times> error option" where
  "regular_heading level text d =
     (case add_paragraph text of
        (para, Some e) \<Rightarrow> (append_paragraph para d, Some e)
      | (para, None) \<Rightarrow>
          if level = 1 then
            (case runs para of
               [] \<Rightarrow> (append_paragraph (para\<lparr>alignment := Some CENTER\<rparr>) d, Some IndexError)
             | r # rs \<Rightarrow>
                 (append_paragraph
                    (para\<lparr>alignment := Some CENTER, runs := r\<lparr>bold := True\<rparr> # rs\<rparr>) d,
                  None))
          else if level = 2 then
            (case runs para of
               [] \<Rightarrow> (append_paragraph (para\<lparr>alignment := Some LEFT\<rparr>) d, Some IndexError)
             | r # rs \<Rightarrow>
                 (append_paragraph
                    (para\<lparr>alignment := Some LEFT, runs := r\<lparr>bold := True\<rparr> # rs\<rparr>) d,
                  None))
          else if level = 3 then
            (case runs para of
               [] \<Rightarrow> (append_paragraph (para\<lparr>alignment := Some LEFT\<rparr>) d, Some IndexError)
             | r # rs \<Rightarrow>
                 (append_paragraph
                    (para\<lparr>alignment := Some LEFT,
                          runs := r\<lparr>bold := True, italic := True\<rparr> # rs\<rparr>) d,
                  None))
          else if level \<in> {4, 5} then
            (case runs para of
               [] \<Rightarrow> (append_paragraph (para\<lparr>left_indent := Some (Inches_halves 1)\<rparr>) d,
                      Some IndexError)
             | r # rs \<Rightarrow>
                 (let heading_run = r\<lparr>bold := True,
                                        italic := (if level = 5 then True else italic r)\<rparr>;
                      p1 = para\<lparr>left_indent := Some (Inches_halves 1),
                                 runs := heading_run # rs\<rparr>
                  in case (if \<not> endswith text ''.'' then add_run ''.'' p1 else (p1, None)) of
                       (p2, e) \<Rightarrow> (append_paragraph p2 d, e)))
          else (append_paragraph para d, None))"

text \<open>
  Lines 149-160, the run-in heading made of a level 4 or 5 heading and the paragraph after
  it. Each of the two \<open>add_run\<close> calls can raise ValueError.
\<close>

definition run_in_heading :: "int \<Rightarrow> string \<Rightarrow> string \<Rightarrow> document \<Rightarrow> document \<times> error option" where
  "run_in_heading level text next_text d =
     (let para = (new_paragraph [])\<lparr>left_indent := Some (Inches_halves 1),
                                     first_line_indent := Some (Inches_halves 0)\<rparr>
      in case add_run (text @ ''. '') para of
           (p1, Some e) \<Rightarrow> (append_paragraph p1 d, Some e)
         | (p1, None) \<Rightarrow>
             (let p2 = update_last_run
                         (\<lambda>r. r\<lparr>bold := True, italic := (if level = 5 then True else italic r)\<rparr>) p1
              in case add_run next_text p2 of
                   (p3, e) \<Rightarrow> (append_paragraph p3 d, e)))"

text \<open>
  \<open>_create_body\<close>: the \<open>while i < len(body_content)\<close> loop with its cursor \<open>i\<close>,
  which advances by 2 after a run-in heading and by 1 otherwise; \<open>blocks\<close> is the
  argument \<open>body_content\<close>. An exception ends the loop.
\<close>

function create_body_loop :: "nat \<Rightarrow> block list \<Rightarrow> document \<Rightarrow> document \<times> error option" where
  "create_body_loop i blocks d =
     (if i < length blocks then
        (case blocks ! i of
           Heading level text \<Rightarrow>
             (let next_block = (if i + 1 < length blocks
                                then Some (blocks ! (i + 1)) else None)
              in case (if level \<in> {4, 5} then next_block else None) of
                   Some (Paragraph next_text) \<Rightarrow>
                     (case run_in_heading level text next_text d of
                        (d', Some e) \<Rightarrow> (d', Some e)
                      | (d', None) \<Rightarrow> create_body_loop (i + 2) blocks d')
                 | _ \<Rightarrow>
                     (case regular_heading level text d of
                        (d', Some e) \<Rightarrow> (d', Some e)
                      | (d', None) \<Rightarrow> create_body_loop (i + 1) blocks d'))
         | Paragraph text \<Rightarrow>
             (case add_paragraph text of
                (para, Some e) \<Rightarrow> (append_paragraph para d, Some e)
              | (para, None) \<Rightarrow>
                  create_body_loop (i + 1) blocks
                    (append_paragraph (para\<lparr>first_line_indent := Some (Inches_halves 1)\<rparr>) d))
         | Math formula \<Rightarrow>
             (case add_run formula ((new_paragraph [])\<lparr>alignment := Some CENTER\<rparr>) of
                (para, Some e) \<Rightarrow> (append_paragraph para d, Some e)
              | (para, None) \<Rightarrow>
                  create_body_loop (i + 1) blocks
                    (append_paragraph (update_last_run (\<lambda>r. r\<lparr>italic := True\<rparr>) para) d)))
      else (d, None))"
  by pat_completeness auto
termination
  by (relation "measure (\<lambda>(i, blocks, d). length blocks - i)") auto

definition create_body :: "block list \<Rightarrow> document \<Rightarrow> document \<times> error option" where
  "create_body blocks d = create_body_loop 0 blocks d"

text \<open>Lines 211-215: the loop over the references.\<close>

fun reference_entries :: "string list \<Rightarrow> document \<Rightarrow> document \<times> error option" where
  "reference_entries [] d = (d, None)"
| "reference_entries (ref # refs) d =
     (if strip ref \<noteq> [] then
        (case add_paragraph (strip ref) of
           (para, Some e) \<Rightarrow> (append_paragraph para d, Some e)
         | (para, None) \<Rightarrow>
             reference_entries refs
               (append_paragraph
                  (para\<lparr>left_indent := Some (Inches_halves 1),
                        first_line_indent := Some (Inches_halves (- 1))\<rparr>) d))
      else reference_entries refs d)"

definition create_references :: "string list \<Rightarrow> document \<Rightarrow> document \<times> error option" where
  "create_references refs d =
     (if refs = [] then (d, None)
      else
        (case add_paragraph ''References'' of
           (heading, Some e) \<Rightarrow> (append_paragraph heading d, Some e)
         | (heading, None) \<Rightarrow>
             (case runs heading of
                [] \<Rightarrow> (append_paragraph (heading\<lparr>alignment := Some CENTER\<rparr>) d, Some IndexError)
              | r # rs \<Rightarrow>
                  reference_entries refs
                    (append_paragraph
                       (heading\<lparr>alignment := Some CENTER, runs := r\<lparr>bold := True\<rparr> # rs\<rparr>) d))))"

text \<open>
  \<open>create_document\<close> returns the pair of \<open>self.doc\<close> as the call leaves it and of the
  outcome: the document returned, or the exception raised.
\<close>

definition create_document ::
  "(string \<rightharpoonup> string) \<Rightarrow> block list \<Rightarrow> string list \<Rightarrow> document \<times> (error + document)" where
  "create_document title_data blocks refs =
     (let d0 = add_page_numbers (set_margins (set_document_defaults Document))
      in case create_title_page title_data d0 of
           (d1, Some e) \<Rightarrow> (d1, Inl e)
         | (d1, None) \<Rightarrow>
             (case create_body blocks (add_page_break d1) of
                (d2, Some e) \<Rightarrow> (d2, Inl e)
              | (d2, None) \<Rightarrow>
                  (case create_references refs (add_page_break d2) of
                     (d3, Some e) \<Rightarrow> (d3, Inl e)
                   | (d3, None) \<Rightarrow> (d3, Inr d3))))"

section \<open>Predicates used in the statements\<close>

text \<open>
  The first line of \<open>future\<close> that is not blank exists and starts with an uppercase
  character.
\<close>

definition upper_follows :: "string list \<Rightarrow> bool" where
  "upper_follows future =
     (case filter (\<lambda>l. strip l \<noteq> []) future of
        [] \<Rightarrow> False
      | l # _ \<Rightarrow> (case strip l of [] \<Rightarrow> False | c # _ \<Rightarrow> isupper c))"

text \<open>
  The references-section marker as the specification words it: the trimmed,
  case-insensitive content is \<open>references\<close>, or the line is \<open>---\<close> and the first
  non-empty line among the remaining ones starts with an uppercase character.
\<close>

definition spec_is_marker :: "string \<Rightarrow> string list \<Rightarrow> bool" where
  "spec_is_marker line future =
     (lower (strip line) = ''references'' \<or> (strip line = ''---'' \<and> upper_follows future))"

text \<open>The condition of line 246, under which the iteration flushes and continues.\<close>

definition marker_branch :: "string \<Rightarrow> string list \<Rightarrow> bool" where
  "marker_branch line future =
     (lower (strip line) = ''references'' \<or> (strip line = ''---'' \<and> future \<noteq> []))"

text \<open>\<open>next_block and next_block['type'] == 'paragraph'\<close> for the blocks after a heading.\<close>

definition followed_by_paragraph :: "block list \<Rightarrow> bool" where
  "followed_by_paragraph rest = (case rest of Paragraph p # _ \<Rightarrow> True | _ \<Rightarrow> False)"

text \<open>
  The invariant of a block without the part on the heading text: the level of a heading
  lies between 1 and 5, and the text of a paragraph or a formula is not empty.
\<close>

fun block_ok :: "block \<Rightarrow> bool" where
  "block_ok (Heading level text) = (1 \<le> level \<and> level \<le> 5)"
| "block_ok (Paragraph text) = (text \<noteq> [])"
| "block_ok (Math formula) = (formula \<noteq> [])"

text \<open>The blocks emitted so far are well formed, and no buffered line is empty.\<close>

definition state_ok :: "pstate \<Rightarrow> bool" where
  "state_ok st = (list_all block_ok (body_content st) \<and>
                  list_all (\<lambda>s. s \<noteq> []) (current_paragraph st))"

declare create_body_loop.simps [simp del]

lemmas string_defs = strip_def isspace_def lower_def lower_char_def isupper_def startswith_def
  endswith_def

lemmas parser_defs = parse_def step_def init_state_def flush_paragraph_def match_here_def
  upper_follows_def spec_is_marker_def marker_branch_def

section \<open>The parser: one iteration of the loop\<close>

lemma scan_future_eq: "scan_future future flag = Inr (flag \<or> upper_follows future)"
proof (induction future)
  case Nil
  show ?case by (simp add: upper_follows_def)
next
  case (Cons l ls)
  show ?case
  proof (cases "strip l")
    case Nil
    with Cons show ?thesis by (simp add: upper_follows_def)
  next
    case (Cons c cs)
    then show ?thesis by (simp add: upper_follows_def)
  qed
qed

lemma lower_dashes: "lower ''---'' \<noteq> ''references''"
  by (simp add: lower_def)

lemma step_marker_branch:
  "marker_branch line future \<Longrightarrow>
   step line future st =
     Inr (flush_paragraph (st\<lparr>in_references := (in_references st \<or> spec_is_marker line future)\<rparr>))"
  by (auto simp: step_def Let_def marker_branch_def spec_is_marker_def scan_future_eq lower_dashes)

lemma not_branch_not_marker: "\<not> marker_branch line future \<Longrightarrow> \<not> spec_is_marker line future"
  by (auto simp: marker_branch_def spec_is_marker_def upper_follows_def)

lemma in_references_flush [simp]: "in_references (flush_paragraph st) = in_references st"
  by (simp add: flush_paragraph_def)

lemma step_no_branch_flag:
  "\<not> marker_branch line future \<Longrightarrow>
   \<exists>st'. step line future st = Inr st' \<and> in_references st' = in_references st"
  by (auto simp: step_def Let_def marker_branch_def split: option.splits)

lemma contains_backtick: "contains s ''`'' = (CHR 0x60 \<in> set s)"
  by (induction s) (auto simp: startswith_def)

lemma lower_char_backtick: "lower_char (CHR 0x60) = CHR 0x60"
  by (simp add: lower_char_def isupper_def)

lemma backtick_lower:
  assumes "CHR 0x60 \<in> set s"
  shows "lower s \<noteq> ''references''"
proof
  assume eq: "lower s = ''references''"
  from assms have "lower_char (CHR 0x60) \<in> set (lower s)" by (simp add: lower_def)
  then show False by (simp add: lower_char_backtick eq)
qed

lemma backtick_not_marker:
  assumes "CHR 0x60 \<in> set (strip line)"
  shows "\<not> marker_branch line future"
  using assms backtick_lower[OF assms] by (auto simp: marker_branch_def)

lemma step_total: "\<exists>st'. step line future st = Inr st'"
  by (cases "marker_branch line future")
     (auto simp: step_marker_branch dest: step_no_branch_flag[where st = st])

lemma parse_loop_total: "\<exists>st'. parse_loop ls st = Inr st'"
proof (induction ls arbitrary: st)
  case Nil
  show ?case by simp
next
  case (Cons l ls)
  obtain st1 where "step l ls st = Inr st1" using step_total by blast
  with Cons[of st1] show ?case by simp
qed

text \<open>
  Every line of a text is handled by \<open>step\<close>, with the lines after it as \<open>future\<close>,
  in the state the loop has reached there; so what holds of \<open>step\<close> for every state
  holds of every line of every text.
\<close>

lemma parse_loop_reaches_line:
  "\<exists>st1. parse_loop (pre @ line # future) st =
          (case step line future st1 of Inl e \<Rightarrow> Inl e | Inr st2 \<Rightarrow> parse_loop future st2)"
proof (induction pre arbitrary: st)
  case Nil
  show ?case by auto
next
  case (Cons l pre)
  obtain st' where s: "step l (pre @ line # future) st = Inr st'" using step_total by blast
  from Cons[of st'] s show ?case by simp
qed

subsection \<open>The regular expression on a double-backtick span\<close>

lemma startswith_dd_cons:
  "startswith (c # g @ CHR 0x60 # CHR 0x60 # post) [CHR 0x60, CHR 0x60] =
   startswith (c # g @ [CHR 0x60]) [CHR 0x60, CHR 0x60]"
  by (cases g) (auto simp: startswith_def)

lemma lazy_group_found:
  "\<not> contains (g @ [CHR 0x60]) [CHR 0x60, CHR 0x60] \<Longrightarrow> CHR 0x0A \<notin> set g \<Longrightarrow>
   lazy_group [CHR 0x60, CHR 0x60] (g @ CHR 0x60 # CHR 0x60 # post) = Some g"
proof (induction g)
  case Nil
  show ?case by (simp add: startswith_def)
next
  case (Cons c g)
  from Cons.prems have a: "\<not> startswith (c # g @ [CHR 0x60]) [CHR 0x60, CHR 0x60]"
    and b: "\<not> contains (g @ [CHR 0x60]) [CHR 0x60, CHR 0x60]"
    by simp_all
  from a have "\<not> startswith (c # g @ CHR 0x60 # CHR 0x60 # post) [CHR 0x60, CHR 0x60]"
    by (simp add: startswith_dd_cons)
  with Cons.IH[OF b] Cons.prems(2) show ?case by auto
qed

lemma match_here_found:
  assumes "f \<noteq> []" and "\<not> contains (tl f @ [CHR 0x60]) [CHR 0x60, CHR 0x60]"
    and "CHR 0x0A \<notin> set f"
  shows "match_here [CHR 0x60, CHR 0x60] (CHR 0x60 # CHR 0x60 # f @ CHR 0x60 # CHR 0x60 # post)
         = Some f"
proof -
  from assms(1) obtain c g where f: "f = c # g" by (cases f) auto
  with assms have "lazy_group [CHR 0x60, CHR 0x60] (g @ CHR 0x60 # CHR 0x60 # post) = Some g"
    by (simp add: lazy_group_found)
  with f assms(3) show ?thesis by (auto simp: match_here_def startswith_def)
qed

lemma re_search_found:
  assumes "\<not> contains (pre @ [CHR 0x60]) [CHR 0x60, CHR 0x60]"
    and "f \<noteq> []" and "\<not> contains (tl f @ [CHR 0x60]) [CHR 0x60, CHR 0x60]"
    and "CHR 0x0A \<notin> set f"
  shows "re_search [CHR 0x60, CHR 0x60]
           (pre @ CHR 0x60 # CHR 0x60 # f @ CHR 0x60 # CHR 0x60 # post) = Some f"
  using assms(1)
proof (induction pre)
  case Nil
  show ?case by (simp add: match_here_found[OF assms(2-4)])
next
  case (Cons c pre)
  from Cons.prems have a: "\<not> startswith (c # pre @ [CHR 0x60]) [CHR 0x60, CHR 0x60]"
    and b: "\<not> contains (pre @ [CHR 0x60]) [CHR 0x60, CHR 0x60]"
    by simp_all
  from a have "\<not> startswith (c # pre @ CHR 0x60 # CHR 0x60 # f @ CHR 0x60 # CHR 0x60 # post)
                   [CHR 0x60, CHR 0x60]"
    by (simp add: startswith_dd_cons)
  then have "match_here [CHR 0x60, CHR 0x60]
               (c # pre @ CHR 0x60 # CHR 0x60 # f @ CHR 0x60 # CHR 0x60 # post) = None"
    by (simp add: match_here_def)
  with Cons.IH[OF b] show ?case by simp
qed

subsection \<open>What holds of the emitted blocks\<close>

lemma re_search_nonempty: "re_search d s = Some g \<Longrightarrow> g \<noteq> []"
  by (induction s) (auto simp: match_here_def split: if_splits list.splits option.splits)

lemma join_space_nonempty: "xs \<noteq> [] \<Longrightarrow> list_all (\<lambda>s. s \<noteq> []) xs \<Longrightarrow> join_space xs \<noteq> []"
  by (induction xs rule: join_space.induct) auto

lemma count_level_pos: "startswith s ''#'' \<Longrightarrow> 0 < count_level s"
  by (cases s) (auto simp: startswith_def)

lemma flush_ok: "state_ok st \<Longrightarrow> state_ok (flush_paragraph st)"
  by (auto simp: state_ok_def flush_paragraph_def join_space_nonempty)

lemma flag_ok: "state_ok (st\<lparr>in_references := b\<rparr>) = state_ok st"
  by (simp add: state_ok_def)

lemma step_ok:
  assumes "state_ok st" and "step line future st = Inr st'"
  shows "state_ok st'"
proof (cases "marker_branch line future")
  case True
  with assms(2) have "st' = flush_paragraph
      (st\<lparr>in_references := (in_references st \<or> spec_is_marker line future)\<rparr>)"
    by (simp add: step_marker_branch)
  with assms(1) show ?thesis by (simp add: flush_ok flag_ok)
next
  case False
  then have nb: "\<not> (lower (strip line) = ''references'' \<or> (strip line = ''---'' \<and> future \<noteq> []))"
    by (simp add: marker_branch_def)
  have f: "state_ok (flush_paragraph st)" by (rule flush_ok[OF assms(1)])
  show ?thesis
  proof (cases "in_references st")
    case True
    with assms nb show ?thesis by (auto simp: step_def Let_def state_ok_def split: if_splits)
  next
    case nr: False
    show ?thesis
    proof (cases "startswith (strip line) ''#''")
      case True
      from count_level_pos[OF True] have "1 \<le> min (int (count_level (strip line))) 5" by simp
      with assms(2) nb nr True f show ?thesis
        by (auto simp: step_def Let_def state_ok_def)
    next
      case nh: False
      show ?thesis
      proof (cases "contains (strip line) ''``'' \<or> contains (strip line) ''`''")
        case True
        with assms(2) nb nr nh f show ?thesis
          by (auto simp: step_def Let_def state_ok_def split: option.splits
                dest: re_search_nonempty)
      next
        case False
        with assms nb nr nh f show ?thesis
          by (auto simp: step_def Let_def state_ok_def split: if_splits)
      qed
    qed
  qed
qed

lemma parse_loop_ok: "state_ok st \<Longrightarrow> parse_loop ls st = Inr st' \<Longrightarrow> state_ok st'"
proof (induction ls arbitrary: st)
  case Nil
  then show ?case by simp
next
  case (Cons l ls)
  from Cons.prems(2) obtain st1 where s: "step l ls st = Inr st1" and r: "parse_loop ls st1 = Inr st'"
    by (auto split: sum.splits)
  from Cons.IH[OF step_ok[OF Cons.prems(1) s] r] show ?case .
qed

text \<open>
  Every block \<open>parse\<close> returns has a heading level between 1 and 5, a paragraph text
  that is not empty, or a formula that is not empty.
\<close>

lemma parse_blocks_ok:
  assumes "parse raw_text = Inr (blocks, refs)"
  shows "list_all block_ok blocks"
proof -
  from assms obtain st where l: "parse_loop (split_newline raw_text) init_state = Inr st"
    and b: "blocks = body_content (flush_paragraph st)"
    by (auto simp: parse_def Let_def split: sum.splits)
  have "state_ok init_state" by (simp add: state_ok_def init_state_def)
  from flush_ok[OF parse_loop_ok[OF this l]] b show ?thesis by (simp add: state_ok_def)
qed

section \<open>Claims about the parser\<close>

text \<open>
  C1 (as amended). In every iteration, \<open>in_references\<close> becomes true exactly when the
  line is a references-section marker in the specification's sense (and stays true once
  it is). The flush of the accumulated paragraph and the skip of the line happen on every
  line that satisfies the condition of line 246, that is, on a line whose trimmed,
  lower-cased content is \<open>references\<close> and on every \<open>---\<close> that is not the last line,
  whether or not the flag is set: a \<open>---\<close> followed by a lowercase line flushes and is
  consumed too.
\<close>

theorem marker_branch_flushes_and_sets_flag:
  "\<exists>st'. step line future st = Inr st' \<and>
         in_references st' = (in_references st \<or> spec_is_marker line future) \<and>
         (marker_branch line future \<longrightarrow>
            st' = flush_paragraph
                    (st\<lparr>in_references := (in_references st \<or> spec_is_marker line future)\<rparr>))"
proof (cases "marker_branch line future")
  case True
  then show ?thesis by (simp add: step_marker_branch)
next
  case False
  from step_no_branch_flag[OF False, of st] not_branch_not_marker[OF False] False
  show ?thesis by auto
qed

text \<open>An instance: a \<open>---\<close> followed by a blank line and an author-led line.\<close>

theorem marker_branch_flushes_and_sets_flag_witness:
  "marker_branch ''---'' ['''', ''Smith, A. (2015).''] \<and>
   (\<exists>st'. step ''---'' ['''', ''Smith, A. (2015).'']
            \<lparr>body_content = [], references = [], in_references = False,
             current_paragraph = [''a'']\<rparr> = Inr st' \<and>
          in_references st' \<and>
          st' = \<lparr>body_content = [Paragraph ''a''], references = [], in_references = True,
                 current_paragraph = []\<rparr>)"
  using marker_branch_flushes_and_sets_flag
    [of "''---''" "['''', ''Smith, A. (2015).'']"
        "\<lparr>body_content = [], references = [], in_references = False,
          current_paragraph = [''a'']\<rparr>"]
  by (simp add: parser_defs string_defs)

text \<open>
  The claim as stated fails: \<open>---\<close> before the lowercase line \<open>b\<close> is no marker, yet
  the iteration flushes the paragraph \<open>a\<close>, so that \<open>a\<close> and \<open>b\<close> are two paragraphs.
\<close>

theorem rule_before_lowercase_line_flushes:
  "\<not> spec_is_marker ''---'' [''b''] \<and>
   step ''---'' [''b'']
     \<lparr>body_content = [], references = [], in_references = False, current_paragraph = [''a'']\<rparr> =
   Inr \<lparr>body_content = [Paragraph ''a''], references = [], in_references = False,
        current_paragraph = []\<rparr> \<and>
   parse ''a\<newline>---\<newline>b'' = Inr ([Paragraph ''a'', Paragraph ''b''], [])"
  by (simp add: parser_defs string_defs)

text \<open>
  C2 (as amended). Outside the references section, a line that does not start with
  \<open>#\<close>, contains a backtick and has no complete delimited span (neither regular
  expression matches) produces no formula block and contributes no text of its own, but
  it does flush the accumulated paragraph: the flush of lines 299-304 comes before the
  search for a span. The iteration leaves exactly the state a blank line would leave.
\<close>

theorem unmatched_backtick_flushes:
  assumes "\<not> in_references st"
    and "\<not> startswith (strip line) ''#''"
    and "CHR 0x60 \<in> set (strip line)"
    and "re_search ''``'' (strip line) = None"
    and "re_search ''`'' (strip line) = None"
  shows "step line future st = Inr (flush_paragraph st)"
  using assms backtick_not_marker[OF assms(3), of future]
  by (auto simp: step_def Let_def marker_branch_def contains_backtick)

text \<open>An instance: a line with one backtick after the buffered line \<open>a\<close>.\<close>

theorem unmatched_backtick_flushes_witness:
  "\<not> in_references \<lparr>body_content = [], references = [], in_references = False,
                      current_paragraph = [''a'']\<rparr> \<and>
   \<not> startswith (strip ''x ` y'') ''#'' \<and>
   CHR 0x60 \<in> set (strip ''x ` y'') \<and>
   re_search ''``'' (strip ''x ` y'') = None \<and>
   re_search ''`'' (strip ''x ` y'') = None \<and>
   step ''x ` y'' [''b'']
     \<lparr>body_content = [], references = [], in_references = False, current_paragraph = [''a'']\<rparr> =
   Inr \<lparr>body_content = [Paragraph ''a''], references = [], in_references = False,
        current_paragraph = []\<rparr>"
proof -
  have h: "\<not> in_references \<lparr>body_content = [], references = [], in_references = False,
                      current_paragraph = [''a'']\<rparr>"
    "\<not> startswith (strip ''x ` y'') ''#''"
    "CHR 0x60 \<in> set (strip ''x ` y'')"
    "re_search ''``'' (strip ''x ` y'') = None"
    "re_search ''`'' (strip ''x ` y'') = None"
    by (simp_all add: parser_defs string_defs)
  from unmatched_backtick_flushes[OF h, of "[''b'']"] h show ?thesis
    by (simp add: flush_paragraph_def)
qed

text \<open>
  The claim as stated fails: a line that is a single backtick matches neither expression,
  and yet \<open>a\<close> and \<open>b\<close> around it become two paragraphs, where without that line
  they are one.
\<close>

theorem unmatched_backtick_splits_paragraph:
  "re_search ''``'' ''`'' = None \<and> re_search ''`'' ''`'' = None \<and>
   parse ''a\<newline>`\<newline>b'' = Inr ([Paragraph ''a'', Paragraph ''b''], []) \<and>
   parse ''a\<newline>b'' = Inr ([Paragraph ''a b''], [])"
  by (simp add: parser_defs string_defs)

text \<open>
  C3 (as amended). Once \<open>in_references\<close> is true, an iteration appends the trimmed
  line to the references when the line is not blank and does not satisfy the condition
  of line 246; nothing else of the state changes, so no structural parsing takes place.
  A line that satisfies that condition (trimmed, lower-cased content \<open>references\<close>, or
  a \<open>---\<close> that is not the last line) is skipped and not appended, since the test of
  line 246 comes before the test of \<open>in_references\<close>.
\<close>

theorem references_mode_step:
  assumes "in_references st"
  shows "step line future st =
     Inr (if marker_branch line future then flush_paragraph st
          else if strip line \<noteq> [] then st\<lparr>references := references st @ [strip line]\<rparr>
          else st)"
proof (cases "marker_branch line future")
  case True
  have eq: "st\<lparr>in_references := True\<rparr> = st" using assms by (cases st) simp
  have "flush_paragraph (st\<lparr>in_references := True\<rparr>) = flush_paragraph st"
    by (subst eq) (rule refl)
  with True assms show ?thesis by (simp add: step_marker_branch)
next
  case False
  with assms show ?thesis by (auto simp: step_def Let_def marker_branch_def)
qed

text \<open>An instance: a line that starts with \<open>#\<close> is appended, trimmed, as a reference.\<close>

theorem references_mode_step_witness:
  "in_references \<lparr>body_content = [], references = [''A''], in_references = True,
                   current_paragraph = []\<rparr> \<and>
   step ''  # Brown, B. (2015).  '' [''---'']
     \<lparr>body_content = [], references = [''A''], in_references = True, current_paragraph = []\<rparr> =
   Inr \<lparr>body_content = [], references = [''A'', ''# Brown, B. (2015).''], in_references = True,
        current_paragraph = []\<rparr>"
proof -
  have h: "in_references \<lparr>body_content = [], references = [''A''], in_references = True,
                   current_paragraph = []\<rparr>" by simp
  from references_mode_step[OF h, of "''  # Brown, B. (2015).  ''" "[''---'']"] h show ?thesis
    by (simp add: parser_defs string_defs)
qed

text \<open>
  The claim as stated fails: inside the references section the lines \<open>REFERENCES\<close>
  and \<open>---\<close> are dropped, not appended.
\<close>

theorem marker_inside_references_dropped:
  "parse ''References\<newline>A\<newline>REFERENCES\<newline>---\<newline>b'' = Inr ([], [''A'', ''b''])"
  by code_simp

text \<open>
  C5. The line \<open>#\<close> makes the parser emit a heading whose text is empty: the heading
  branch appends the block without testing the text, where the paragraph branch tests
  \<open>stripped\<close>, the formula branch needs one character in the group and the
  references branch tests \<open>stripped\<close>.
\<close>

theorem empty_heading_text_emitted:
  "parse ''#'' = Inr ([Heading 1 []], [])"
  by (simp add: parser_defs string_defs)

text \<open>
  C8 (as amended). Outside the references section, take a line whose trimmed content
  does not start with \<open>#\<close> and reads \<open>pre ``f`` post\<close>, where the opening pair is the
  first pair of adjacent backticks of the line, \<open>f\<close> is not empty, and the closing
  pair is the first pair of adjacent backticks that begins at least one character after
  the opening pair. The parser flushes the accumulated paragraph and emits a formula
  block whose text is exactly \<open>f\<close>; single backticks inside \<open>f\<close> do not make the
  single-backtick expression apply.
\<close>

theorem double_backtick_formula:
  assumes "\<not> in_references st"
    and "strip line = pre @ ''``'' @ f @ ''``'' @ post"
    and "\<not> startswith (strip line) ''#''"
    and "\<not> contains (pre @ ''`'') ''``''"
    and "f \<noteq> []" and "\<not> contains (tl f @ ''`'') ''``''" and "CHR 0x0A \<notin> set f"
  shows "step line future st =
     Inr ((flush_paragraph st)\<lparr>body_content := body_content (flush_paragraph st) @ [Math f]\<rparr>)"
proof -
  have bt: "CHR 0x60 \<in> set (strip line)" by (simp add: assms(2))
  have rs: "re_search ''``'' (strip line) = Some f"
    using re_search_found[OF assms(4-7), of post] by (simp add: assms(2))
  from backtick_not_marker[OF bt, of future]
  have c: "\<not> (lower (strip line) = ''references'' \<or> (strip line = ''---'' \<and> future \<noteq> []))"
    by (simp add: marker_branch_def)
  show ?thesis
    unfolding step_def Let_def using c assms(1,3) bt rs
    by (auto simp: contains_backtick)
qed

text \<open>An instance: the span contains a single-backtick span of its own.\<close>

theorem double_backtick_formula_witness:
  "step ''The sum is ``a + `b` `` here'' []
     \<lparr>body_content = [], references = [], in_references = False, current_paragraph = [''p'']\<rparr> =
   Inr \<lparr>body_content = [Paragraph ''p'', Math ''a + `b` ''], references = [],
        in_references = False, current_paragraph = []\<rparr>"
proof -
  have h: "\<not> in_references \<lparr>body_content = [], references = [], in_references = False,
                      current_paragraph = [''p'']\<rparr>"
    "strip ''The sum is ``a + `b` `` here'' = ''The sum is '' @ ''``'' @ ''a + `b` '' @ ''``'' @ '' here''"
    "\<not> startswith (strip ''The sum is ``a + `b` `` here'') ''#''"
    "\<not> contains (''The sum is '' @ ''`'') ''``''"
    "''a + `b` '' \<noteq> []"
    "\<not> contains (tl ''a + `b` '' @ ''`'') ''``''"
    "CHR 0x0A \<notin> set ''a + `b` ''"
    by (simp_all add: string_defs)
  from double_backtick_formula[OF h, of "[]"] show ?thesis
    by (simp add: flush_paragraph_def)
qed

text \<open>
  The claim as stated fails: a line with a balanced double-backtick span that starts with
  \<open>#\<close> is a heading, and no formula block is emitted.
\<close>

theorem heading_line_with_span_no_formula:
  "parse ''# Mass ``E = mc2``'' = Inr ([Heading 1 ''Mass ``E = mc2``''], [])"
  by (simp add: parser_defs string_defs)

text \<open>
  C9. \<open>parse\<close> returns a pair of body blocks and references for every text: the one
  indexing that could raise, \<open>future_line.strip()[0]\<close>, is only reached on a string
  that is not empty. The empty text gives no block and no reference.
\<close>

theorem parse_total:
  "(\<exists>r. parse raw_text = Inr r) \<and> parse [] = Inr ([], [])"
proof
  obtain st where "parse_loop (split_newline raw_text) init_state = Inr st"
    using parse_loop_total by blast
  then show "\<exists>r. parse raw_text = Inr r" by (simp add: parse_def Let_def)
  show "parse [] = Inr ([], [])"
    by (simp add: parser_defs string_defs)
qed

text \<open>An instance with a heading, a rule and blank lines.\<close>

theorem parse_total_witness:
  "(\<exists>r. parse ''# T\<newline>---\<newline>\<newline>   '' = Inr r) \<and> parse [] = Inr ([], [])"
  using parse_total[of "''# T\<newline>---\<newline>\<newline>   ''"] by simp

text \<open>
  C10 (as amended). On a last line that is \<open>---\<close> (no line follows it), the condition
  of line 246 is false. When the parser is not in the references section, the line is not
  accumulated: the iteration flushes the accumulated paragraph and adds nothing, which is
  what it does on a blank line. When the parser is in the references section, the line is
  appended to the references.
\<close>

theorem final_rule_line:
  assumes "strip line = ''---''"
  shows "step line [] st =
     Inr (if in_references st then st\<lparr>references := references st @ [''---'']\<rparr>
          else flush_paragraph st) \<and>
     (\<not> in_references st \<longrightarrow> step line [] st = step [] [] st)"
  using assms by (simp add: step_def Let_def lower_dashes string_defs flush_paragraph_def)

text \<open>An instance: the buffered lines \<open>a\<close> and \<open>b\<close> are flushed as one paragraph.\<close>

theorem final_rule_line_witness:
  "strip '' ---'' = ''---'' \<and>
   step '' ---'' []
     \<lparr>body_content = [], references = [], in_references = False, current_paragraph = [''a'', ''b'']\<rparr> =
   Inr \<lparr>body_content = [Paragraph ''a b''], references = [], in_references = False,
        current_paragraph = []\<rparr>"
proof -
  have h: "strip '' ---'' = ''---''" by (simp add: string_defs)
  from final_rule_line[OF h, of "\<lparr>body_content = [], references = [], in_references = False,
      current_paragraph = [''a'', ''b'']\<rparr>"] h
  show ?thesis by (simp add: flush_paragraph_def)
qed

text \<open>
  The claim as stated fails: after \<open>References\<close>, a last line \<open>---\<close> does
  contribute content, the reference entry \<open>---\<close>.
\<close>

theorem final_rule_in_references_appended:
  "parse ''References\<newline>A\<newline>---'' = Inr ([], [''A'', ''---''])"
  by code_simp

section \<open>Texts that the document library accepts\<close>

text \<open>
  A text made of characters that XML allows is stored whole, and nothing is raised.
\<close>

lemma xml_char_separators: "xml_char (CHR 0x09)" "xml_char (CHR 0x0A)" "xml_char (CHR 0x0D)"
  by (simp_all add: xml_char_def)




lemma add_paragraph_empty: "add_paragraph [] = (new_paragraph [], None)"
  by (simp add: add_paragraph_def)

section \<open>The body loop of the formatter\<close>

text \<open>
  The cursor of \<open>_create_body\<close> only looks at the blocks from its position on, so the
  loop at position \<open>i + 1\<close> of \<open>x # xs\<close> is the loop at position \<open>i\<close> of \<open>xs\<close>.
\<close>

lemma loop_Suc_Cons: "create_body_loop (Suc i) (x # xs) d = create_body_loop i xs d"
proof (induction i xs d rule: create_body_loop.induct)
  case (1 i blocks d)
  show ?case
    apply (subst create_body_loop.simps[of "Suc i"])
    apply (subst create_body_loop.simps[of i blocks])
    using "1.IH"
    apply (auto split: block.splits option.splits prod.splits simp: Let_def)
    done
qed





lemma loop_regular:
  "\<not> (level \<in> {4, 5} \<and> followed_by_paragraph xs) \<Longrightarrow>
   create_body_loop 0 (Heading level t # xs) d =
   (case regular_heading level t d of
      (d', Some e) \<Rightarrow> (d', Some e)
    | (d', None) \<Rightarrow> create_body_loop 0 xs d')"
  by (subst create_body_loop.simps)
     (auto simp: loop_Suc_Cons followed_by_paragraph_def split: list.splits block.splits option.splits)





text \<open>
  A heading of level 1 to 5 with an empty text, outside a run-in merge, makes
  \<open>_create_body\<close> raise IndexError at \<open>para.runs[0]\<close>.
\<close>

lemma empty_heading_raises:
  assumes "level \<in> {1, 2, 3, 4, 5}" and "\<not> (level \<in> {4, 5} \<and> followed_by_paragraph rest)"
  shows "snd (create_body (Heading level [] # rest) d) = Some IndexError"
  using assms(1)
  by (auto simp: create_body_def loop_regular[OF assms(2)] regular_heading_def add_paragraph_empty
        new_paragraph_def Let_def)

section \<open>Claims about the formatter\<close>







text \<open>
  C4 (as amended). For every title-data mapping without the key \<open>title\<close>,
  \<open>create_document\<close> raises \<open>KeyError('title')\<close> and returns no document. There is no
  validation step: the exception comes from \<open>title_data['title']\<close> inside
  \<open>_create_title_page\<close>, after the defaults, the margins, the page-number field and
  four paragraphs of the title page (three blank ones and the centred, still empty
  title paragraph) have been put into \<open>self.doc\<close>. Neither the body nor the
  references are rendered.
\<close>

theorem missing_title_fails_in_title_page:
  assumes "title_data ''title'' = None"
  shows "create_document title_data blocks refs =
     ((add_page_numbers (set_margins (set_document_defaults Document)))
        \<lparr>body := [new_paragraph [], new_paragraph [], new_paragraph [],
                  (new_paragraph [])\<lparr>alignment := Some CENTER\<rparr>]\<rparr>,
      Inl (KeyError ''title''))"
proof -
  have b: "body (add_page_numbers (set_margins (set_document_defaults Document))) = []"
    by (simp add: add_page_numbers_def set_margins_def set_document_defaults_def Document_def)
  have t: "create_title_page title_data d0 =
      (d0\<lparr>body := body d0 @ [new_paragraph [], new_paragraph [], new_paragraph [],
                  (new_paragraph [])\<lparr>alignment := Some CENTER\<rparr>]\<rparr>, Some (KeyError ''title''))" for d0
    using assms by (simp add: create_title_page_def Let_def append_paragraph_def)
  show ?thesis
    unfolding create_document_def Let_def t by (simp add: b)
qed

text \<open>An instance: a mapping that has an author and no title.\<close>

theorem missing_title_fails_in_title_page_witness:
  "[''author'' \<mapsto> ''Jane Doe''] ''title'' = None \<and>
   snd (create_document [''author'' \<mapsto> ''Jane Doe''] [Paragraph ''p''] [''r'']) =
     Inl (KeyError ''title'') \<and>
   length (body (fst (create_document [''author'' \<mapsto> ''Jane Doe''] [Paragraph ''p''] [''r'']))) = 4"
proof -
  have h: "[''author'' \<mapsto> ''Jane Doe''] ''title'' = None" by simp
  from missing_title_fails_in_title_page
         [of "[''author'' \<mapsto> ''Jane Doe'']" "[Paragraph ''p'']" "[''r'']", OF h] h
  show ?thesis by simp
qed

text \<open>
  The claim as stated fails: with the empty mapping, the document held by the formatter
  when the exception is raised already has its settings, its header field and four body
  paragraphs.
\<close>

theorem missing_title_content_produced_first:
  "create_document Map.empty [] [] =
     (\<lparr>font_name = Some ''Times New Roman'', font_size = Some 152400,
       line_spacing_rule = Some DOUBLE, space_before = Some 0, space_after = Some 0,
       top_margin = Some 914400, bottom_margin = Some 914400,
       left_margin = Some 914400, right_margin = Some 914400,
       header_paragraphs =
         [\<lparr>runs = [\<lparr>content = FieldCode ''PAGE'', bold = False, italic = False\<rparr>],
           alignment = Some RIGHT, left_indent = None, first_line_indent = None\<rparr>],
       body =
         [\<lparr>runs = [], alignment = None, left_indent = None, first_line_indent = None\<rparr>,
          \<lparr>runs = [], alignment = None, left_indent = None, first_line_indent = None\<rparr>,
          \<lparr>runs = [], alignment = None, left_indent = None, first_line_indent = None\<rparr>,
          \<lparr>runs = [], alignment = Some CENTER, left_indent = None, first_line_indent = None\<rparr>]\<rparr>,
      Inl (KeyError ''title''))"
  by (simp add: create_document_def create_title_page_def Let_def append_paragraph_def
        new_paragraph_def add_page_numbers_def set_margins_def set_document_defaults_def
        Document_def Pt_def Inches_halves_def)

end
